theory Spec2Isabelle
  imports Main "HOL-Library.Word"
begin

section \<open>Values, errors and the outside world\<close>

text \<open>
  A value as it arrives in a parsed JSON request body, or is handed to \<open>res.json\<close>.
  \<open>JUndefined\<close> is what reading an absent property gives. A number is carried as the
  text that JavaScript's \<open>String\<close> gives it: the program never computes with one.
  A \<open>string\<close> holds one list element per character, as the length validator counts them.
\<close>

datatype jsvalue =
    JUndefined
  | JNull
  | JBool bool
  | JNumber string
  | JString string
  | JArray "jsvalue list"
  | JObject "(string \<times> jsvalue) list"

type_synonym bytes = "8 word list"

datatype js_error =
    TypeError
  | ProviderError string
  | FsError string
  | TransferError string
  | ERR_HTTP_HEADERS_SENT

text \<open>The argument object of \<open>openai.audio.speech.create\<close>.\<close>

record speech_params =
  model :: string
  voice :: string
  input :: jsvalue

text \<open>
  How the transfer started by \<open>res.download\<close> ends: the file reaches the client; or
  the file cannot be read, which is reported before anything of the response is written and
  leaves the connection usable; or the client has gone away before the head was written, and
  nothing written afterwards goes out; or the transfer breaks after the response head (and
  part of the file) has gone out.
\<close>

datatype transfer_outcome =
    Delivered
  | ReadFailed js_error
  | ClientGone
  | FailedAfterHead js_error

text \<open>
  What the collaborators outside the program answer during one request: the provider call
  (\<open>Inl\<close>: the call rejects; \<open>Inr (Inl _)\<close>: reading the audio with \<open>arrayBuffer\<close>
  rejects; \<open>Inr (Inr b)\<close>: the audio bytes), the identifier drawn by \<open>uuidv4\<close>, the
  directory of the service module (\<open>__dirname\<close>), the outcome of \<open>fs.promises.writeFile\<close>
  (\<open>None\<close>: written) and the fate of the file transfer. Every awaited call is taken to settle.
\<close>

record env =
  speech_create :: "speech_params \<Rightarrow> js_error + (js_error + bytes)"
  uuidv4 :: string
  dirname :: string
  writeFile :: "string \<Rightarrow> bytes \<Rightarrow> js_error option"
  transfer :: transfer_outcome

datatype res_call =
    Status nat
  | Json jsvalue
  | Send string
  | Download string string

datatype res_body =
    JsonBody jsvalue
  | TextBody string
  | FileBody string bytes
  | PartialFile string
  | ErrorPage

record http_response =
  status :: nat
  resp_body :: res_body

text \<open>
  The state the program acts on: the calls made to the provider, the files on disk, the
  console, and the Express response object of the request in flight (the methods called on
  it, its status code, whether its head has been sent, whether the client is still there,
  and what went out to the client). \<open>ErrorPage\<close> is the HTML page of Express's own error
  handler.
\<close>

record world =
  provider_calls :: "speech_params list"
  files :: "string \<Rightarrow> bytes option"
  console :: "(string \<times> js_error) list"
  res_calls :: "res_call list"
  statusCode :: nat
  headersSent :: bool
  connected :: bool
  responses :: "http_response list"

text \<open>Express hands every request a response object of its own.\<close>

definition new_response :: "world \<Rightarrow> world" where
  "new_response w =
     w\<lparr>res_calls := [], statusCode := 200, headersSent := False, connected := True, responses := []\<rparr>"

section \<open>The Express response object\<close>

definition res_status :: "nat \<Rightarrow> world \<Rightarrow> world" where
  "res_status code w = w\<lparr>res_calls := res_calls w @ [Status code], statusCode := code\<rparr>"

text \<open>
  \<open>res.json\<close> and \<open>res.send\<close> write the head and the body; once the head has been sent
  they throw (\<open>Some\<close> is the error thrown). When the client has gone away nothing is
  written and the head stays unsent.
\<close>

definition res_json :: "jsvalue \<Rightarrow> world \<Rightarrow> js_error option \<times> world" where
  "res_json v w =
     (let w1 = w\<lparr>res_calls := res_calls w @ [Json v]\<rparr>
      in if headersSent w then (Some ERR_HTTP_HEADERS_SENT, w1)
         else if \<not> connected w then (None, w1)
         else (None, w1\<lparr>headersSent := True,
                 responses := responses w @ [\<lparr>status = statusCode w, resp_body = JsonBody v\<rparr>]\<rparr>))"

definition res_send :: "string \<Rightarrow> world \<Rightarrow> js_error option \<times> world" where
  "res_send s w =
     (let w1 = w\<lparr>res_calls := res_calls w @ [Send s]\<rparr>
      in if headersSent w then (Some ERR_HTTP_HEADERS_SENT, w1)
         else if \<not> connected w then (None, w1)
         else (None, w1\<lparr>headersSent := True,
                 responses := responses w @ [\<lparr>status = statusCode w, resp_body = TextBody s\<rparr>]\<rparr>))"

text \<open>
  \<open>res.download path name callback\<close>: the result is the error handed to the callback
  (\<open>None\<close> when the transfer completed). A head already sent, a client already gone or a
  file that cannot be read is reported before anything is written. Express calls the
  callback on an error whether or not part of the response has gone out; the callback is
  the one to look at \<open>res.headersSent\<close>.
\<close>

definition res_download :: "env \<Rightarrow> string \<Rightarrow> string \<Rightarrow> world \<Rightarrow> js_error option \<times> world" where
  "res_download e path name w =
     (let w1 = w\<lparr>res_calls := res_calls w @ [Download path name]\<rparr>
      in if headersSent w then (Some ERR_HTTP_HEADERS_SENT, w1)
         else if \<not> connected w then (Some (TransferError ''ECONNABORTED''), w1)
         else case files w path of
           None \<Rightarrow> (Some (FsError ''ENOENT''), w1)
         | Some content \<Rightarrow>
             (case transfer e of
                Delivered \<Rightarrow>
                  (None, w1\<lparr>headersSent := True,
                     responses := responses w @
                       [\<lparr>status = statusCode w, resp_body = FileBody name content\<rparr>]\<rparr>)
              | ReadFailed err \<Rightarrow> (Some err, w1)
              | ClientGone \<Rightarrow> (Some (TransferError ''ECONNABORTED''), w1\<lparr>connected := False\<rparr>)
              | FailedAfterHead err \<Rightarrow>
                  (Some err, w1\<lparr>headersSent := True,
                     responses := responses w @
                       [\<lparr>status = statusCode w, resp_body = PartialFile name\<rparr>]\<rparr>)))"

text \<open>
  Express's own error handler, reached when a middleware calls \<open>next(err)\<close>: status 500
  and an HTML page, when the head is unsent and the client is there.
\<close>

definition express_error_handler :: "js_error \<Rightarrow> world \<Rightarrow> js_error option \<times> world" where
  "express_error_handler err w =
     (if headersSent w \<or> \<not> connected w then (None, w)
      else (None, w\<lparr>statusCode := 500, headersSent := True,
              responses := responses w @ [\<lparr>status = 500, resp_body = ErrorPage\<rparr>]\<rparr>))"

section \<open>Strings and paths\<close>

text \<open>\<open>String.prototype.split\<close> with a one-character separator: never an empty array.\<close>

fun split_js :: "char \<Rightarrow> string \<Rightarrow> string list" where
  "split_js c [] = [[]]"
| "split_js c (x # xs) =
     (if x = c then [] # split_js c xs
      else (case split_js c xs of [] \<Rightarrow> [[x]] | s # ss \<Rightarrow> (x # s) # ss))"

text \<open>\<open>Array.prototype.pop\<close>: the last element, \<open>undefined\<close> on an empty array.\<close>

definition pop :: "'a list \<Rightarrow> 'a option" where
  "pop xs = (if xs = [] then None else Some (last xs))"

text \<open>\<open>Array.prototype.join\<close>.\<close>

fun join_js :: "string \<Rightarrow> string list \<Rightarrow> string" where
  "join_js sep [] = []"
| "join_js sep [x] = x"
| "join_js sep (x # y # ys) = x @ sep @ join_js sep (y # ys)"

text \<open>
  Node's \<open>path.join\<close> on a POSIX host: the non-empty arguments joined by \<open>/\<close>, then
  normalised. \<open>normalize_step\<close> is one round of the segment loop of \<open>normalizeString\<close>:
  empty and \<open>.\<close> segments vanish, \<open>..\<close> removes the segment before it (or stays, on a
  relative path that has nothing left to remove).
\<close>

definition normalize_step :: "bool \<Rightarrow> string list \<Rightarrow> string \<Rightarrow> string list" where
  "normalize_step allowAboveRoot res seg =
     (if seg = [] \<or> seg = ''.'' then res
      else if seg = ''..'' then
        (if res \<noteq> [] \<and> last res \<noteq> ''..'' then butlast res
         else if allowAboveRoot then res @ [''..''] else res)
      else res @ [seg])"

definition normalizeString :: "string \<Rightarrow> bool \<Rightarrow> string list" where
  "normalizeString path allowAboveRoot =
     foldl (normalize_step allowAboveRoot) [] (split_js CHR ''/'' path)"

definition path_normalize :: "string \<Rightarrow> string" where
  "path_normalize path =
     (if path = [] then ''.''
      else
        (let isAbsolute = (hd path = CHR ''/'');
             trailingSeparator = (last path = CHR ''/'');
             p = join_js ''/'' (normalizeString path (\<not> isAbsolute))
         in if p = [] then (if isAbsolute then ''/'' else if trailingSeparator then ''./'' else ''.'')
            else (if isAbsolute then ''/'' else []) @ p @ (if trailingSeparator then ''/'' else [])))"

definition path_join :: "string list \<Rightarrow> string" where
  "path_join args =
     (let joined = join_js ''/'' (filter (\<lambda>a. a \<noteq> []) args)
      in if joined = [] then ''.'' else path_normalize joined)"

text \<open>
  The shape of what \<open>uuidv4\<close> returns: 36 characters, hyphens at positions 8, 13, 18 and
  23, lower-case hexadecimal digits elsewhere.
\<close>

definition hex_digit :: "char \<Rightarrow> bool" where
  "hex_digit c = (c \<in> set ''0123456789abcdef'')"

definition is_uuid :: "string \<Rightarrow> bool" where
  "is_uuid u =
     (length u = 36 \<and>
      list_all (\<lambda>(i, c). if i \<in> {8, 13, 18, 23} then c = CHR ''-'' else hex_digit c)
        (enumerate 0 u))"

text \<open>A path segment that normalisation keeps as it is.\<close>

definition plain_segment :: "string \<Rightarrow> bool" where
  "plain_segment n = (n \<noteq> [] \<and> CHR ''/'' \<notin> set n \<and> n \<noteq> ''.'' \<and> n \<noteq> ''..'')"

text \<open>What \<open>path.join\<close> hands to the normaliser for the directory of the audio files.\<close>

definition joined_dir :: "string \<Rightarrow> string" where
  "joined_dir d = (if d = [] then ''../../../temp'' else d @ ''/'' @ ''../../../temp'')"

section \<open>textToSpeech.service.ts\<close>

text \<open>The template literal \<open>`${uuidv4()}.mp3`\<close>.\<close>

definition fileName_of :: "string \<Rightarrow> string" where
  "fileName_of u = u @ ''.mp3''"

text \<open>
  \<open>TextToSpeechService.convertTextToSpeech\<close>. \<open>Inl\<close> is the rejection of the returned
  promise, \<open>Inr\<close> the file path it resolves to. The provider is called first, with the
  argument untouched; the name is drawn and the path joined; the audio is read and written.
  The parameter is typed \<open>string\<close> in the source and holds whatever the caller passes.
\<close>

definition convertTextToSpeech :: "env \<Rightarrow> jsvalue \<Rightarrow> world \<Rightarrow> (js_error + string) \<times> world" where
  "convertTextToSpeech e text w =
     (let params = \<lparr>model = ''tts-1-hd'', voice = ''alloy'', input = text\<rparr>;
          w1 = w\<lparr>provider_calls := provider_calls w @ [params]\<rparr>
      in case speech_create e params of
           Inl err \<Rightarrow> (Inl err, w1)
         | Inr mp3 \<Rightarrow>
             (let fileName = fileName_of (uuidv4 e);
                  filePath = path_join [dirname e, ''../../../temp'', fileName]
              in case mp3 of
                   Inl err \<Rightarrow> (Inl err, w1)
                 | Inr buffer \<Rightarrow>
                     (case writeFile e filePath buffer of
                        Some err \<Rightarrow> (Inl err, w1)
                      | None \<Rightarrow> (Inr filePath, w1\<lparr>files := (files w1)(filePath \<mapsto> buffer)\<rparr>))))"

section \<open>Validation: textToSpeech.dto.ts and validationMiddleware.ts\<close>

text \<open>
  The part of the express-validator library that the program uses. A chain names one field
  of the body and holds validators in the order they were added; \<open>withMessage\<close> sets the
  message of the validator added last. Running a chain runs every validator and appends one
  error for each failure.
\<close>

datatype validator =
    IsString
  | IsLength "nat option" "nat option"

record validation_chain =
  field :: string
  stack :: "(validator \<times> string) list"

record validation_error =
  ve_value :: jsvalue
  ve_msg :: string
  ve_path :: string
  ve_location :: string

record request =
  req_body :: jsvalue
  validation_errors :: "validation_error list"

definition body :: "string \<Rightarrow> validation_chain" where
  "body f = \<lparr>field = f, stack = []\<rparr>"

definition isString :: "validation_chain \<Rightarrow> validation_chain" where
  "isString c = c\<lparr>stack := stack c @ [(IsString, ''Invalid value'')]\<rparr>"

definition isLength :: "nat option \<Rightarrow> nat option \<Rightarrow> validation_chain \<Rightarrow> validation_chain" where
  "isLength mn mx c = c\<lparr>stack := stack c @ [(IsLength mn mx, ''Invalid value'')]\<rparr>"

definition withMessage :: "string \<Rightarrow> validation_chain \<Rightarrow> validation_chain" where
  "withMessage m c =
     (if stack c = [] then c
      else c\<lparr>stack := butlast (stack c) @ [(fst (last (stack c)), m)]\<rparr>)"

text \<open>Reading a property of the body: \<open>undefined\<close> unless the body is an object that has it.\<close>

definition select_field :: "string \<Rightarrow> jsvalue \<Rightarrow> jsvalue" where
  "select_field f b =
     (case b of
        JObject kvs \<Rightarrow> (case map_of kvs f of None \<Rightarrow> JUndefined | Some v \<Rightarrow> v)
      | _ \<Rightarrow> JUndefined)"

text \<open>
  JavaScript's conversion of a value to a string (\<open>String\<close>, and what \<open>join\<close> does to
  the elements of an array). An object converts through \<open>Object.prototype.toString\<close>;
  when it has a property \<open>toString\<close> of its own (from JSON, never a function) there is
  nothing to call and the conversion throws.
\<close>

fun js_String :: "jsvalue \<Rightarrow> js_error + string"
  and join_elements :: "jsvalue list \<Rightarrow> js_error + string list" where
  "js_String JUndefined = Inr ''undefined''"
| "js_String JNull = Inr ''null''"
| "js_String (JBool b) = Inr (if b then ''true'' else ''false'')"
| "js_String (JNumber r) = Inr r"
| "js_String (JString s) = Inr s"
| "js_String (JArray xs) =
     (case join_elements xs of Inl err \<Rightarrow> Inl err | Inr ss \<Rightarrow> Inr (join_js '','' ss))"
| "js_String (JObject kvs) =
     (case map_of kvs ''toString'' of None \<Rightarrow> Inr ''[object Object]'' | Some t \<Rightarrow> Inl TypeError)"
| "join_elements [] = Inr []"
| "join_elements (x # xs) =
     (case (if x = JUndefined \<or> x = JNull then Inr [] else js_String x) of
        Inl err \<Rightarrow> Inl err
      | Inr s \<Rightarrow> (case join_elements xs of Inl err \<Rightarrow> Inl err | Inr ss \<Rightarrow> Inr (s # ss)))"

text \<open>What \<open>if (value)\<close> takes for true. The number 0 is carried as the text \<open>0\<close>.\<close>

definition truthy :: "jsvalue \<Rightarrow> bool" where
  "truthy v =
     (case v of
        JUndefined \<Rightarrow> False
      | JNull \<Rightarrow> False
      | JBool b \<Rightarrow> b
      | JNumber r \<Rightarrow> r \<noteq> ''0''
      | JString s \<Rightarrow> s \<noteq> []
      | JArray xs \<Rightarrow> True
      | JObject kvs \<Rightarrow> True)"

text \<open>
  The library's conversion before a string validator runs. \<open>null\<close> and \<open>undefined\<close>
  become the empty string. An object whose \<open>toString\<close> is not a function is converted
  with \<open>Object.prototype.toString\<close>, provided that property is truthy; with a falsy
  \<open>toString\<close> of its own the object reaches \<open>isNaN\<close>, which throws. Everything else
  goes through its own \<open>toString\<close> or \<open>String\<close>.
\<close>

definition toString :: "jsvalue \<Rightarrow> js_error + string" where
  "toString v =
     (case v of
        JUndefined \<Rightarrow> Inr []
      | JNull \<Rightarrow> Inr []
      | JObject kvs \<Rightarrow>
          (case map_of kvs ''toString'' of
             None \<Rightarrow> Inr ''[object Object]''
           | Some t \<Rightarrow> if truthy t then Inr ''[object Object]'' else Inl TypeError)
      | _ \<Rightarrow> js_String v)"

text \<open>
  \<open>accepts v x\<close>: whether validator \<open>v\<close> passes the value \<open>x\<close>, or the error thrown
  while finding out. \<open>isString\<close> looks at the type of the value itself; \<open>isLength\<close>
  counts the characters of the converted value, with \<open>min\<close> defaulting to 0 and no upper
  bound when \<open>max\<close> is absent.
\<close>

fun accepts :: "validator \<Rightarrow> jsvalue \<Rightarrow> js_error + bool" where
  "accepts IsString x = Inr (case x of JString s \<Rightarrow> True | _ \<Rightarrow> False)"
| "accepts (IsLength mn mx) x =
     (case toString x of
        Inl err \<Rightarrow> Inl err
      | Inr str \<Rightarrow>
          Inr (let len = length str
               in (case mn of None \<Rightarrow> 0 | Some m \<Rightarrow> m) \<le> len \<and>
                  (case mx of None \<Rightarrow> True | Some m \<Rightarrow> len \<le> m)))"

text \<open>
  One validator on the field's value: \<open>isString\<close> judges the value as a whole, a string
  validator judges each element of an array separately. One error per failure; an error
  thrown on the way ends the run.
\<close>

definition inputs_of :: "validator \<Rightarrow> jsvalue \<Rightarrow> jsvalue list" where
  "inputs_of v x = (case (v, x) of (IsLength mn mx, JArray xs) \<Rightarrow> xs | _ \<Rightarrow> [x])"

fun run_values :: "string \<Rightarrow> validator \<times> string \<Rightarrow> jsvalue list \<Rightarrow> js_error + validation_error list" where
  "run_values f item [] = Inr []"
| "run_values f item (v # vs) =
     (case accepts (fst item) v of
        Inl err \<Rightarrow> Inl err
      | Inr ok \<Rightarrow>
          (case run_values f item vs of
             Inl err \<Rightarrow> Inl err
           | Inr errs \<Rightarrow>
               Inr ((if ok then []
                     else [\<lparr>ve_value = v, ve_msg = snd item, ve_path = f, ve_location = ''body''\<rparr>])
                    @ errs)))"

definition run_validator :: "string \<Rightarrow> jsvalue \<Rightarrow> validator \<times> string \<Rightarrow> js_error + validation_error list" where
  "run_validator f x item = run_values f item (inputs_of (fst item) x)"



text \<open>
  The loop over the chain: errors pile up on the request, and the next validator runs. The
  chain's middleware then calls \<open>next()\<close>, or \<open>next(err)\<close> with what was thrown
  (\<open>Inl\<close>).
\<close>

fun run_stack :: "string \<Rightarrow> jsvalue \<Rightarrow> (validator \<times> string) list \<Rightarrow> validation_error list \<Rightarrow> js_error + validation_error list" where
  "run_stack f x [] errs = Inr errs"
| "run_stack f x (item # items) errs =
     (case run_validator f x item of
        Inl err \<Rightarrow> Inl err
      | Inr new \<Rightarrow> run_stack f x items (errs @ new))"

definition run_chain :: "validation_chain \<Rightarrow> request \<Rightarrow> js_error + request" where
  "run_chain c req =
     (case run_stack (field c) (select_field (field c) (req_body req)) (stack c) (validation_errors req) of
        Inl err \<Rightarrow> Inl err
      | Inr errs \<Rightarrow> Inr (req\<lparr>validation_errors := errs\<rparr>))"

text \<open>The chains of a route, one middleware after the other; \<open>next(err)\<close> skips the rest.\<close>

fun run_chains :: "validation_chain list \<Rightarrow> request \<Rightarrow> js_error + request" where
  "run_chains [] req = Inr req"
| "run_chains (c # cs) req =
     (case run_chain c req of Inl err \<Rightarrow> Inl err | Inr req1 \<Rightarrow> run_chains cs req1)"

text \<open>\<open>textToSpeechDto\<close>, written as the source chains it.\<close>

definition textToSpeechDto :: "validation_chain list" where
  "textToSpeechDto =
     [withMessage ''Text must not exceed 500 characters''
        (isLength None (Some 500)
          (withMessage ''Text must not be empty''
            (isLength (Some 1) None
              (withMessage ''Text must be a string''
                (isString (body ''text''))))))]"

definition validationResult :: "request \<Rightarrow> validation_error list" where
  "validationResult req = validation_errors req"

text \<open>The object the library gives for one error in \<open>errors.array()\<close>.\<close>

definition error_object :: "validation_error \<Rightarrow> jsvalue" where
  "error_object er =
     JObject [(''type'', JString ''field''), (''value'', ve_value er), (''msg'', JString (ve_msg er)),
              (''path'', JString (ve_path er)), (''location'', JString (ve_location er))]"

text \<open>
  \<open>validationMiddleware\<close>: with errors, status 400 and the whole array, and \<open>next\<close> is not
  called; without, \<open>next\<close>. The result's first component is an error that was thrown and
  not caught.
\<close>

definition validationMiddleware ::
  "request \<Rightarrow> (world \<Rightarrow> js_error option \<times> world) \<Rightarrow> world \<Rightarrow> js_error option \<times> world" where
  "validationMiddleware req next w =
     (let errors = validationResult req
      in if errors \<noteq> []
         then res_json (JObject [(''errors'', JArray (map error_object errors))]) (res_status 400 w)
         else next w)"

section \<open>textToSpeech.controller.ts\<close>

text \<open>\<open>const { text } = req.body\<close>: destructuring \<open>undefined\<close> or \<open>null\<close> throws.\<close>

definition destructure_text :: "jsvalue \<Rightarrow> js_error + jsvalue" where
  "destructure_text b =
     (case b of
        JUndefined \<Rightarrow> Inl TypeError
      | JNull \<Rightarrow> Inl TypeError
      | JObject kvs \<Rightarrow> Inr (case map_of kvs ''text'' of None \<Rightarrow> JUndefined | Some v \<Rightarrow> v)
      | _ \<Rightarrow> Inr JUndefined)"

text \<open>\<open>filePath.split('/').pop() || 'output.mp3'\<close>: the fallback replaces a missing or empty name.\<close>

definition download_name :: "string \<Rightarrow> string" where
  "download_name filePath =
     (case pop (split_js CHR ''/'' filePath) of
        None \<Rightarrow> ''output.mp3''
      | Some s \<Rightarrow> if s = [] then ''output.mp3'' else s)"

definition error_body :: jsvalue where
  "error_body = JObject [(''error'', JString ''Error converting text to audio'')]"

text \<open>The \<open>catch\<close> branch.\<close>

definition catch_branch :: "js_error \<Rightarrow> world \<Rightarrow> js_error option \<times> world" where
  "catch_branch err w =
     res_json error_body
       (res_status 500 (w\<lparr>console := console w @ [(''Error converting text to speech:'', err)]\<rparr>))"

text \<open>
  The callback given to \<open>res.download\<close>. It runs after the handler's \<open>try\<close> block has
  been left, so what it throws is not caught there.
\<close>

definition download_callback :: "js_error option \<Rightarrow> world \<Rightarrow> js_error option \<times> world" where
  "download_callback err w =
     (case err of
        None \<Rightarrow> (None, w)
      | Some e \<Rightarrow>
          res_send ''Error generating the audio file''
            (res_status 500 (w\<lparr>console := console w @ [(''Error sending the file:'', e)]\<rparr>)))"

text \<open>\<open>TextToSpeechController.convertTextToSpeech\<close>.\<close>

definition controller_convertTextToSpeech :: "env \<Rightarrow> request \<Rightarrow> world \<Rightarrow> js_error option \<times> world" where
  "controller_convertTextToSpeech e req w =
     (case destructure_text (req_body req) of
        Inl err \<Rightarrow> catch_branch err w
      | Inr text \<Rightarrow>
          (case convertTextToSpeech e text w of
             (Inl err, w1) \<Rightarrow> catch_branch err w1
           | (Inr filePath, w1) \<Rightarrow>
               (let fileName = download_name filePath;
                    (cb_err, w2) = res_download e filePath fileName w1
                in download_callback cb_err w2)))"

section \<open>textToSpeech.routes.ts\<close>

text \<open>
  \<open>router.post('/convert', textToSpeechDto, validationMiddleware, controller)\<close>: the chains
  of the DTO run on the request, then the middleware, then (through \<open>next\<close>) the
  controller. An error thrown in a chain goes to Express's error handler instead.
\<close>

definition run_dto :: "jsvalue \<Rightarrow> js_error + request" where
  "run_dto b = run_chains textToSpeechDto \<lparr>req_body = b, validation_errors = []\<rparr>"

definition post_convert :: "env \<Rightarrow> jsvalue \<Rightarrow> world \<Rightarrow> js_error option \<times> world" where
  "post_convert e b w =
     (case run_dto b of
        Inl err \<Rightarrow> express_error_handler err (new_response w)
      | Inr req \<Rightarrow> validationMiddleware req (controller_convertTextToSpeech e req) (new_response w))"

section \<open>The responses a request may end with\<close>


definition is_partial :: "http_response \<Rightarrow> bool" where
  "is_partial r = (case resp_body r of PartialFile n \<Rightarrow> True | _ \<Rightarrow> False)"

section \<open>Concrete requests and environments\<close>

definition hello_body :: jsvalue where
  "hello_body = JObject [(''text'', JString ''Hello, world!'')]"

definition demo_uuid :: string where
  "demo_uuid = ''9b1deb4d-3b7d-4bad-9bdd-2b0d7b3dcb6d''"

definition other_uuid :: string where
  "other_uuid = ''1b9d6bcd-bbfd-4b2d-9b5d-ab8dfbbd4bed''"

definition demo_audio :: bytes where
  "demo_audio = [0x49, 0x44, 0x33]"

definition demo_world :: world where
  "demo_world = \<lparr>provider_calls = [], files = (\<lambda>p. None), console = [], res_calls = [],
                  statusCode = 200, headersSent = False, connected = True, responses = []\<rparr>"

text \<open>Everything succeeds.\<close>

definition demo_env :: env where
  "demo_env = \<lparr>speech_create = (\<lambda>p. Inr (Inr demo_audio)), uuidv4 = demo_uuid,
                dirname = ''/app/src/modules/text-to-speech'', writeFile = (\<lambda>p b. None),
                transfer = Delivered\<rparr>"

definition other_env :: env where
  "other_env = demo_env\<lparr>uuidv4 := other_uuid\<rparr>"

text \<open>The provider rejects the call.\<close>

definition failing_env :: env where
  "failing_env = demo_env\<lparr>speech_create := (\<lambda>p. Inl (ProviderError ''Conversion failed''))\<rparr>"

text \<open>The file written cannot be read back when the transfer starts.\<close>

definition unreadable_env :: env where
  "unreadable_env = demo_env\<lparr>transfer := ReadFailed (FsError ''EACCES'')\<rparr>"



section \<open>Validation of the request\<close>

lemma dto_unfold:
  "textToSpeechDto =
     [\<lparr>field = ''text'',
       stack = [(IsString, ''Text must be a string''),
                (IsLength (Some 1) None, ''Text must not be empty''),
                (IsLength None (Some 500), ''Text must not exceed 500 characters'')]\<rparr>]"
  by (simp add: textToSpeechDto_def body_def isString_def isLength_def withMessage_def)


lemma run_dto_Inr_iff:
  "run_dto b = Inr req \<longleftrightarrow>
     (\<exists>e1 e2 e3.
        run_validator ''text'' (select_field ''text'' b) (IsString, ''Text must be a string'') = Inr e1 \<and>
        run_validator ''text'' (select_field ''text'' b) (IsLength (Some 1) None, ''Text must not be empty'') = Inr e2 \<and>
        run_validator ''text'' (select_field ''text'' b)
          (IsLength None (Some 500), ''Text must not exceed 500 characters'') = Inr e3 \<and>
        req = \<lparr>req_body = b, validation_errors = e1 @ e2 @ e3\<rparr>)"
  by (auto simp add: run_dto_def dto_unfold run_chain_def split: sum.splits)

lemma run_dto_body: "run_dto b = Inr req \<Longrightarrow> req_body req = b"
  by (auto simp add: run_dto_Inr_iff)

lemma run_dto_string:
  assumes "select_field ''text'' b = JString s"
  shows "\<exists>req. run_dto b = Inr req \<and> req_body req = b \<and>
           (validationResult req = []) = (1 \<le> length s \<and> length s \<le> 500)"
  by (auto simp add: run_dto_Inr_iff assms run_validator_def inputs_of_def toString_def
        validationResult_def)






lemma destructure_selected:
  "select_field ''text'' b = JString s \<Longrightarrow> destructure_text b = Inr (JString s)"
  by (cases b) (auto simp add: select_field_def destructure_text_def split: option.splits)

lemma post_convert_rejected:
  "run_dto b = Inr req \<Longrightarrow> validationResult req \<noteq> [] \<Longrightarrow>
   post_convert e b w =
     (None, (new_response w)\<lparr>res_calls := [Status 400, Json (JObject [(''errors'', JArray (map error_object (validationResult req)))])],
        statusCode := 400, headersSent := True,
        responses := [\<lparr>status = 400, resp_body = JsonBody (JObject [(''errors'', JArray (map error_object (validationResult req)))])\<rparr>]\<rparr>)"
  by (simp add: post_convert_def validationMiddleware_def Let_def res_json_def res_status_def new_response_def)

lemma post_convert_accepted:
  "run_dto b = Inr req \<Longrightarrow> validationResult req = [] \<Longrightarrow>
   post_convert e b w = controller_convertTextToSpeech e req (new_response w)"
  by (simp add: post_convert_def validationMiddleware_def Let_def)


lemma service_provider_calls:
  "provider_calls (snd (convertTextToSpeech e t w)) =
     provider_calls w @ [\<lparr>model = ''tts-1-hd'', voice = ''alloy'', input = t\<rparr>]"
  by (simp add: convertTextToSpeech_def Let_def split: sum.splits option.splits)

lemma res_status_calls [simp]: "provider_calls (res_status c w) = provider_calls w"
  by (simp add: res_status_def)

lemma res_json_calls [simp]: "provider_calls (snd (res_json v w)) = provider_calls w"
  by (simp add: res_json_def Let_def)

lemma res_send_calls [simp]: "provider_calls (snd (res_send v w)) = provider_calls w"
  by (simp add: res_send_def Let_def)

lemma res_download_calls [simp]: "provider_calls (snd (res_download e p n w)) = provider_calls w"
  by (simp add: res_download_def Let_def split: option.splits transfer_outcome.splits)

lemma catch_branch_calls [simp]: "provider_calls (snd (catch_branch err w)) = provider_calls w"
  by (simp add: catch_branch_def)

lemma download_callback_calls [simp]: "provider_calls (snd (download_callback err w)) = provider_calls w"
  by (simp add: download_callback_def split: option.splits)

lemma controller_provider_calls:
  assumes "destructure_text (req_body req) = Inr t"
  shows "provider_calls (snd (controller_convertTextToSpeech e req w)) =
     provider_calls w @ [\<lparr>model = ''tts-1-hd'', voice = ''alloy'', input = t\<rparr>]"
proof (cases "convertTextToSpeech e t w")
  case (Pair r w1)
  then have w1: "provider_calls w1 = provider_calls w @ [\<lparr>model = ''tts-1-hd'', voice = ''alloy'', input = t\<rparr>]"
    using service_provider_calls [of e t w] by simp
  show ?thesis
  proof (cases r)
    case (Inl err)
    with Pair assms w1 show ?thesis by (simp add: controller_convertTextToSpeech_def)
  next
    case (Inr filePath)
    obtain cb w2 where d: "res_download e filePath (download_name filePath) w1 = (cb, w2)"
      by (cases "res_download e filePath (download_name filePath) w1")
    then have "provider_calls w2 = provider_calls w1"
      using res_download_calls [of e filePath "download_name filePath" w1] by simp
    with Pair assms w1 Inr d show ?thesis by (simp add: controller_convertTextToSpeech_def)
  qed
qed

section \<open>Paths and file names\<close>

lemma split_js_nonempty: "split_js c s \<noteq> []"
  by (induction s) (auto split: list.splits)

lemma split_js_no_sep: "c \<notin> set s \<Longrightarrow> split_js c s = [s]"
  by (induction s) auto

lemma split_js_snoc:
  "c \<notin> set name \<Longrightarrow> split_js c (pre @ c # name) = split_js c pre @ [name]"
proof (induction pre)
  case Nil
  then show ?case by (simp add: split_js_no_sep)
next
  case (Cons x pre)
  then show ?case
    using split_js_nonempty [of c pre] by (cases "split_js c pre") auto
qed

lemma join_js_snoc:
  "ys \<noteq> [] \<Longrightarrow> join_js sep (ys @ [n]) = join_js sep ys @ sep @ n"
  by (induction sep ys rule: join_js.induct) auto

lemma join_js_snoc_nonempty: "n \<noteq> [] \<Longrightarrow> join_js sep (ys @ [n]) \<noteq> []"
  by (cases "ys = []") (auto simp add: join_js_snoc)

lemma normalize_step_plain: "plain_segment n \<Longrightarrow> normalize_step a res n = res @ [n]"
  by (simp add: normalize_step_def plain_segment_def)

lemma normalizeString_snoc:
  "plain_segment n \<Longrightarrow> normalizeString (J @ CHR ''/'' # n) a = normalizeString J a @ [n]"
  by (simp add: normalizeString_def split_js_snoc plain_segment_def normalize_step_plain)

lemma path_normalize_snoc:
  assumes "plain_segment n"
  shows "path_normalize (J @ CHR ''/'' # n) =
     (if hd (J @ ''/'') = CHR ''/'' then ''/'' else []) @
       join_js ''/'' (normalizeString J (hd (J @ ''/'') \<noteq> CHR ''/'') @ [n])"
proof -
  have n0: "n \<noteq> []" "CHR ''/'' \<notin> set n"
    using assms by (simp_all add: plain_segment_def)
  have n: "n \<noteq> []" "last n \<noteq> CHR ''/''"
    using n0 by (metis, metis last_in_set)
  have h: "hd (J @ CHR ''/'' # n) = hd (J @ ''/'')" by (cases J) simp_all
  have l: "last (J @ CHR ''/'' # n) = last n" using n by simp
  show ?thesis
    using n
    by (simp add: path_normalize_def Let_def h l normalizeString_snoc [OF assms] join_js_snoc_nonempty
          del: last_appendR last.simps)
qed

lemma pop_split_snoc:
  assumes "plain_segment n" and "P = [] \<or> P = ''/''"
  shows "pop (split_js CHR ''/'' (P @ join_js ''/'' (S @ [n]))) = Some n"
proof -
  have n: "n \<noteq> []" "CHR ''/'' \<notin> set n" using assms by (auto simp add: plain_segment_def)
  have "\<exists>X. P @ join_js ''/'' (S @ [n]) = n \<or> P @ join_js ''/'' (S @ [n]) = X @ CHR ''/'' # n"
  proof (cases "S = []")
    case True
    with assms(2) show ?thesis by auto
  next
    case False
    then have "P @ join_js ''/'' (S @ [n]) = (P @ join_js ''/'' S) @ CHR ''/'' # n"
      by (simp add: join_js_snoc)
    then show ?thesis by blast
  qed
  then obtain X where "P @ join_js ''/'' (S @ [n]) = n \<or> P @ join_js ''/'' (S @ [n]) = X @ CHR ''/'' # n"
    by blast
  then have "last (split_js CHR ''/'' (P @ join_js ''/'' (S @ [n]))) = n"
    using n by (auto simp add: split_js_no_sep split_js_snoc)
  then show ?thesis
    by (simp add: pop_def split_js_nonempty)
qed

lemma path_join_file:
  assumes "plain_segment n"
  shows "path_join [d, ''../../../temp'', n] = path_normalize (joined_dir d @ CHR ''/'' # n)"
  using assms by (auto simp add: path_join_def joined_dir_def plain_segment_def)

lemma pop_split_path_join:
  assumes "plain_segment n"
  shows "pop (split_js CHR ''/'' (path_join [d, ''../../../temp'', n])) = Some n"
  unfolding path_join_file [OF assms] path_normalize_snoc [OF assms]
  by (rule pop_split_snoc [OF assms]) simp

lemma download_name_path_join:
  assumes "plain_segment n"
  shows "download_name (path_join [d, ''../../../temp'', n]) = n"
  using assms by (simp add: download_name_def pop_split_path_join plain_segment_def)

lemma path_join_dir: "path_join [d, ''../../../temp''] = path_normalize (joined_dir d)"
  by (auto simp add: path_join_def joined_dir_def)

lemma joined_dir_split: "\<exists>J0. joined_dir d = J0 @ CHR ''/'' # ''temp''"
proof (cases "d = []")
  case True
  then have "joined_dir d = ''../../..'' @ CHR ''/'' # ''temp''" by (simp add: joined_dir_def)
  then show ?thesis by blast
next
  case False
  then have "joined_dir d = (d @ ''/../../..'') @ CHR ''/'' # ''temp''" by (simp add: joined_dir_def)
  then show ?thesis by blast
qed

lemma plain_temp: "plain_segment ''temp''"
  by (simp add: plain_segment_def)

lemma path_join_under_temp:
  assumes "plain_segment n"
  shows "path_join [d, ''../../../temp'', n] = path_join [d, ''../../../temp''] @ ''/'' @ n"
proof -
  obtain J0 where J0: "joined_dir d = J0 @ CHR ''/'' # ''temp''"
    using joined_dir_split by blast
  have hd_eq: "hd (joined_dir d @ ''/'') = hd (J0 @ ''/'')"
    unfolding J0 by (cases J0) simp_all
  let ?a = "hd (J0 @ ''/'') \<noteq> CHR ''/''"
  let ?A = "(if hd (J0 @ ''/'') = CHR ''/'' then ''/'' else [])"
  have dir: "path_normalize (joined_dir d) = ?A @ join_js ''/'' (normalizeString J0 ?a @ [''temp''])"
    unfolding J0 by (rule path_normalize_snoc [OF plain_temp])
  have S: "normalizeString (joined_dir d) ?a = normalizeString J0 ?a @ [''temp'']"
    unfolding J0 by (rule normalizeString_snoc [OF plain_temp])
  have "path_normalize (joined_dir d @ CHR ''/'' # n) =
          ?A @ join_js ''/'' ((normalizeString J0 ?a @ [''temp'']) @ [n])"
    using path_normalize_snoc [OF assms, of "joined_dir d"] by (simp add: hd_eq S)
  also have "\<dots> = ?A @ join_js ''/'' (normalizeString J0 ?a @ [''temp'']) @ ''/'' @ n"
    by (subst join_js_snoc) simp_all
  finally show ?thesis
    by (simp add: path_join_file [OF assms] path_join_dir dir)
qed

lemma is_uuid_chars:
  assumes "is_uuid u" and "c \<in> set u"
  shows "c = CHR ''-'' \<or> hex_digit c"
proof -
  from assms(2) obtain i where i: "i < length u" "u ! i = c"
    by (auto simp add: in_set_conv_nth)
  then have "(i, c) \<in> set (enumerate 0 u)"
    by (simp add: in_set_enumerate_eq)
  with assms(1) show ?thesis
    by (auto simp add: is_uuid_def list_all_iff split: if_splits)
qed

lemma is_uuid_plain:
  assumes "is_uuid u"
  shows "plain_segment (fileName_of u)"
proof -
  have "CHR ''/'' \<notin> set u"
    using is_uuid_chars [OF assms, of "CHR ''/''"] by (auto simp add: hex_digit_def)
  moreover have "length u = 36" using assms by (simp add: is_uuid_def)
  ultimately show ?thesis
    by (auto simp add: plain_segment_def fileName_of_def dest: arg_cong [where f = length])
qed

section \<open>The route, the controller and the service\<close>

lemma select_hello: "select_field ''text'' hello_body = JString ''Hello, world!''"
  by (simp add: select_field_def hello_body_def)

text \<open>
  Claim C1. A request whose \<open>text\<close> is a string of 1 to 500 characters makes the route
  call the provider exactly once: one call is added to those made before, and it carries
  that text as \<open>input\<close> with the model \<open>tts-1-hd\<close> and the voice \<open>alloy\<close>.
\<close>

theorem valid_text_invokes_provider_once:
  assumes "select_field ''text'' b = JString s" and "1 \<le> length s" and "length s \<le> 500"
  shows "provider_calls (snd (post_convert e b w)) =
     provider_calls w @ [\<lparr>model = ''tts-1-hd'', voice = ''alloy'', input = JString s\<rparr>]"
proof -
  obtain req where req: "run_dto b = Inr req" "req_body req = b" "validationResult req = []"
    using run_dto_string [OF assms(1)] assms(2,3) by auto
  have "post_convert e b w = controller_convertTextToSpeech e req (new_response w)"
    using req(1,3) by (rule post_convert_accepted)
  moreover have "destructure_text (req_body req) = Inr (JString s)"
    using assms(1) req(2) by (simp add: destructure_selected)
  ultimately show ?thesis
    by (simp add: controller_provider_calls new_response_def)
qed

theorem valid_text_invokes_provider_once_witness:
  "select_field ''text'' hello_body = JString ''Hello, world!'' \<and>
   1 \<le> length ''Hello, world!'' \<and> length ''Hello, world!'' \<le> 500 \<and>
   provider_calls (snd (post_convert demo_env hello_body demo_world)) =
     [\<lparr>model = ''tts-1-hd'', voice = ''alloy'', input = JString ''Hello, world!''\<rparr>]"
proof -
  have h2: "1 \<le> length ''Hello, world!''" and h3: "length ''Hello, world!'' \<le> 500"
    by simp_all
  show ?thesis
    using valid_text_invokes_provider_once [OF select_hello h2 h3, of demo_env demo_world]
    by (simp add: select_hello demo_world_def)
qed




lemma catch_branch_fresh:
  "\<not> headersSent w \<Longrightarrow> connected w \<Longrightarrow>
   catch_branch err w =
     (None, w\<lparr>console := console w @ [(''Error converting text to speech:'', err)],
              res_calls := res_calls w @ [Status 500, Json error_body],
              statusCode := 500, headersSent := True,
              responses := responses w @ [\<lparr>status = 500, resp_body = JsonBody error_body\<rparr>]\<rparr>)"
  by (simp add: catch_branch_def res_json_def res_status_def Let_def)

lemma service_Inl:
  "fst (convertTextToSpeech e t w) = Inl err \<Longrightarrow>
   convertTextToSpeech e t w =
     (Inl err, w\<lparr>provider_calls := provider_calls w @ [\<lparr>model = ''tts-1-hd'', voice = ''alloy'', input = t\<rparr>]\<rparr>)"
  by (auto simp add: convertTextToSpeech_def Let_def split: sum.splits option.splits)

text \<open>
  Claim C3. When the call of \<open>convertTextToSpeech\<close> rejects, whatever the error, the
  controller answers 500 with the body \<open>{error: 'Error converting text to audio'}\<close>; the
  only methods called on the response are \<open>status\<close> and \<open>json\<close>, so no download is
  attempted.
\<close>

theorem synthesis_failure_gives_500_json:
  assumes "destructure_text (req_body req) = Inr t"
    and "fst (convertTextToSpeech e t (new_response w)) = Inl err"
  shows "fst (controller_convertTextToSpeech e req (new_response w)) = None \<and>
         responses (snd (controller_convertTextToSpeech e req (new_response w))) =
           [\<lparr>status = 500,
             resp_body = JsonBody (JObject [(''error'', JString ''Error converting text to audio'')])\<rparr>] \<and>
         res_calls (snd (controller_convertTextToSpeech e req (new_response w))) =
           [Status 500, Json (JObject [(''error'', JString ''Error converting text to audio'')])]"
  using assms(1) service_Inl [OF assms(2)]
  by (simp add: controller_convertTextToSpeech_def catch_branch_fresh new_response_def error_body_def)

theorem synthesis_failure_gives_500_json_witness:
  "destructure_text (req_body \<lparr>req_body = hello_body, validation_errors = []\<rparr>) = Inr (JString ''Hello, world!'') \<and>
   fst (convertTextToSpeech failing_env (JString ''Hello, world!'') (new_response demo_world)) =
     Inl (ProviderError ''Conversion failed'') \<and>
   fst (controller_convertTextToSpeech failing_env
       \<lparr>req_body = hello_body, validation_errors = []\<rparr> (new_response demo_world)) = None \<and>
   responses (snd (controller_convertTextToSpeech failing_env
       \<lparr>req_body = hello_body, validation_errors = []\<rparr> (new_response demo_world))) =
     [\<lparr>status = 500,
       resp_body = JsonBody (JObject [(''error'', JString ''Error converting text to audio'')])\<rparr>] \<and>
   res_calls (snd (controller_convertTextToSpeech failing_env
       \<lparr>req_body = hello_body, validation_errors = []\<rparr> (new_response demo_world))) =
     [Status 500, Json (JObject [(''error'', JString ''Error converting text to audio'')])]"
proof -
  have h1: "destructure_text (req_body \<lparr>req_body = hello_body, validation_errors = []\<rparr>) = Inr (JString ''Hello, world!'')"
    by (simp add: destructure_selected select_hello)
  have h2: "fst (convertTextToSpeech failing_env (JString ''Hello, world!'') (new_response demo_world)) =
     Inl (ProviderError ''Conversion failed'')"
    by (simp add: convertTextToSpeech_def failing_env_def demo_env_def)
  show ?thesis
    using h1 h2 synthesis_failure_gives_500_json [OF h1 h2] by simp
qed

text \<open>
  Claim C10. The service checks nothing: for every string, the empty one and the long ones
  included, it calls the provider with that string. The bound of 1 to 500 characters holds
  on the route only because validation answers first: a string outside the bound never
  reaches the provider there.
\<close>

theorem service_enforces_no_input_constraint:
  "provider_calls (snd (convertTextToSpeech e (JString s) w)) =
     provider_calls w @ [\<lparr>model = ''tts-1-hd'', voice = ''alloy'', input = JString s\<rparr>] \<and>
   (select_field ''text'' b = JString s \<and> \<not> (1 \<le> length s \<and> length s \<le> 500) \<longrightarrow>
      provider_calls (snd (post_convert e b w)) = provider_calls w)"
proof -
  have "provider_calls (snd (post_convert e b w)) = provider_calls w"
    if sel: "select_field ''text'' b = JString s" and out: "\<not> (1 \<le> length s \<and> length s \<le> 500)"
  proof -
    obtain req where "run_dto b = Inr req" "validationResult req \<noteq> []"
      using run_dto_string [OF sel] out by auto
    then show ?thesis
      by (simp add: post_convert_rejected new_response_def)
  qed
  then show ?thesis
    by (simp add: service_provider_calls)
qed

theorem service_enforces_no_input_constraint_witness:
  "provider_calls (snd (convertTextToSpeech demo_env (JString []) demo_world)) =
     [\<lparr>model = ''tts-1-hd'', voice = ''alloy'', input = JString []\<rparr>] \<and>
   provider_calls (snd (post_convert demo_env (JObject [(''text'', JString [])]) demo_world)) = []"
  using service_enforces_no_input_constraint
          [of demo_env "[]" demo_world "JObject [(''text'', JString [])]"]
  by (simp add: select_field_def demo_world_def)

section \<open>The generated file\<close>

lemma service_Inr:
  assumes "fst (convertTextToSpeech e t w) = Inr p"
  shows "p = path_join [dirname e, ''../../../temp'', fileName_of (uuidv4 e)] \<and>
     (\<exists>B. speech_create e \<lparr>model = ''tts-1-hd'', voice = ''alloy'', input = t\<rparr> = Inr (Inr B) \<and>
          writeFile e p B = None \<and>
          convertTextToSpeech e t w =
            (Inr p, w\<lparr>provider_calls := provider_calls w @ [\<lparr>model = ''tts-1-hd'', voice = ''alloy'', input = t\<rparr>],
                      files := (files w)(p \<mapsto> B)\<rparr>))"
  using assms
  by (auto simp add: convertTextToSpeech_def Let_def split: sum.splits option.splits)

lemma service_success:
  assumes "speech_create e \<lparr>model = ''tts-1-hd'', voice = ''alloy'', input = t\<rparr> = Inr (Inr B)"
    and "writeFile e (path_join [dirname e, ''../../../temp'', fileName_of (uuidv4 e)]) B = None"
  shows "convertTextToSpeech e t w =
     (Inr (path_join [dirname e, ''../../../temp'', fileName_of (uuidv4 e)]),
      w\<lparr>provider_calls := provider_calls w @ [\<lparr>model = ''tts-1-hd'', voice = ''alloy'', input = t\<rparr>],
        files := (files w)(path_join [dirname e, ''../../../temp'', fileName_of (uuidv4 e)] \<mapsto> B)\<rparr>)"
  using assms by (simp add: convertTextToSpeech_def Let_def)

text \<open>
  Claim C7. For every path the service returns, with the name drawn in the shape of a
  UUID, the last \<open>/\<close>-separated segment of the path exists, is not empty and is the
  generated \<open><uuid>.mp3\<close>: the controller advertises that name and its fallback
  \<open>output.mp3\<close> is not taken. (\<open>path.join\<close> as on a POSIX host.)
\<close>

theorem advertised_name_is_generated_name:
  assumes "is_uuid (uuidv4 e)" and "fst (convertTextToSpeech e t w) = Inr p"
  shows "pop (split_js CHR ''/'' p) = Some (uuidv4 e @ ''.mp3'') \<and>
         uuidv4 e @ ''.mp3'' \<noteq> [] \<and>
         download_name p = uuidv4 e @ ''.mp3''"
proof -
  have p: "p = path_join [dirname e, ''../../../temp'', fileName_of (uuidv4 e)]"
    using service_Inr [OF assms(2)] by simp
  have plain: "plain_segment (fileName_of (uuidv4 e))"
    using assms(1) by (rule is_uuid_plain)
  show ?thesis
    unfolding p
    using pop_split_path_join [OF plain] download_name_path_join [OF plain]
    by (simp add: fileName_of_def)
qed

lemma is_uuid_demo: "is_uuid demo_uuid"
  unfolding demo_uuid_def by code_simp

lemma is_uuid_other: "is_uuid other_uuid"
  unfolding other_uuid_def by code_simp

lemma service_demo:
  "uuidv4 e = u \<Longrightarrow> dirname e = ''/app/src/modules/text-to-speech'' \<Longrightarrow>
   speech_create e = (\<lambda>p. Inr (Inr demo_audio)) \<Longrightarrow> writeFile e = (\<lambda>p b. None) \<Longrightarrow>
   convertTextToSpeech e t w =
     (Inr (path_join [''/app/src/modules/text-to-speech'', ''../../../temp'', fileName_of u]),
      w\<lparr>provider_calls := provider_calls w @ [\<lparr>model = ''tts-1-hd'', voice = ''alloy'', input = t\<rparr>],
        files := (files w)(path_join [''/app/src/modules/text-to-speech'', ''../../../temp'', fileName_of u] \<mapsto> demo_audio)\<rparr>)"
  by (simp add: convertTextToSpeech_def Let_def)

lemma demo_path:
  "path_join [''/app/src/modules/text-to-speech'', ''../../../temp'', fileName_of demo_uuid] =
     ''/app/temp/9b1deb4d-3b7d-4bad-9bdd-2b0d7b3dcb6d.mp3''"
  unfolding demo_uuid_def by code_simp

theorem advertised_name_is_generated_name_witness:
  "is_uuid (uuidv4 demo_env) \<and>
   fst (convertTextToSpeech demo_env (JString ''Hello, world!'') demo_world) =
     Inr ''/app/temp/9b1deb4d-3b7d-4bad-9bdd-2b0d7b3dcb6d.mp3'' \<and>
   download_name ''/app/temp/9b1deb4d-3b7d-4bad-9bdd-2b0d7b3dcb6d.mp3'' =
     ''9b1deb4d-3b7d-4bad-9bdd-2b0d7b3dcb6d.mp3''"
proof -
  have h1: "is_uuid (uuidv4 demo_env)"
    by (simp add: demo_env_def is_uuid_demo)
  have h2: "fst (convertTextToSpeech demo_env (JString ''Hello, world!'') demo_world) =
     Inr ''/app/temp/9b1deb4d-3b7d-4bad-9bdd-2b0d7b3dcb6d.mp3''"
    using service_demo [of demo_env demo_uuid "JString ''Hello, world!''" demo_world]
    by (simp add: demo_env_def demo_path)
  show ?thesis
    using h1 h2 advertised_name_is_generated_name [OF h1 h2]
    by (simp add: demo_env_def demo_uuid_def)
qed

text \<open>
  Claim C8. Two calls that draw different UUIDs generate different file names, since the
  name is the UUID followed by \<open>.mp3\<close>; when both calls succeed, the paths they return
  and the names advertised for them differ as well, whatever the two texts are.
\<close>

theorem distinct_uuids_give_distinct_names:
  assumes "uuidv4 e1 \<noteq> uuidv4 e2"
  shows "fileName_of (uuidv4 e1) \<noteq> fileName_of (uuidv4 e2) \<and>
     (is_uuid (uuidv4 e1) \<and> is_uuid (uuidv4 e2) \<and>
      fst (convertTextToSpeech e1 t1 w1) = Inr p1 \<and> fst (convertTextToSpeech e2 t2 w2) = Inr p2 \<longrightarrow>
        p1 \<noteq> p2 \<and> download_name p1 \<noteq> download_name p2)"
proof -
  have names: "fileName_of (uuidv4 e1) \<noteq> fileName_of (uuidv4 e2)"
    using assms by (simp add: fileName_of_def)
  have "download_name p1 \<noteq> download_name p2"
    if "is_uuid (uuidv4 e1)" "is_uuid (uuidv4 e2)"
       "fst (convertTextToSpeech e1 t1 w1) = Inr p1" "fst (convertTextToSpeech e2 t2 w2) = Inr p2"
  proof -
    have "download_name p1 = fileName_of (uuidv4 e1)"
      using service_Inr [OF that(3)] download_name_path_join [OF is_uuid_plain [OF that(1)]] by simp
    moreover have "download_name p2 = fileName_of (uuidv4 e2)"
      using service_Inr [OF that(4)] download_name_path_join [OF is_uuid_plain [OF that(2)]] by simp
    ultimately show ?thesis using names by simp
  qed
  then show ?thesis using names by auto
qed

theorem distinct_uuids_give_distinct_names_witness:
  "uuidv4 demo_env \<noteq> uuidv4 other_env \<and>
   fileName_of (uuidv4 demo_env) \<noteq> fileName_of (uuidv4 other_env) \<and>
   fst (convertTextToSpeech demo_env (JString ''Hello, world!'') demo_world) \<noteq>
     fst (convertTextToSpeech other_env (JString ''Hello, world!'') demo_world)"
proof -
  have h: "uuidv4 demo_env \<noteq> uuidv4 other_env"
    by (simp add: demo_env_def other_env_def demo_uuid_def other_uuid_def)
  have u1: "is_uuid (uuidv4 demo_env)" by (simp add: demo_env_def is_uuid_demo)
  have u2: "is_uuid (uuidv4 other_env)" by (simp add: other_env_def is_uuid_other)
  let ?p1 = "path_join [''/app/src/modules/text-to-speech'', ''../../../temp'', fileName_of demo_uuid]"
  let ?p2 = "path_join [''/app/src/modules/text-to-speech'', ''../../../temp'', fileName_of other_uuid]"
  have s1: "fst (convertTextToSpeech demo_env (JString ''Hello, world!'') demo_world) = Inr ?p1"
    using service_demo [of demo_env demo_uuid "JString ''Hello, world!''" demo_world]
    by (simp add: demo_env_def)
  have s2: "fst (convertTextToSpeech other_env (JString ''Hello, world!'') demo_world) = Inr ?p2"
    using service_demo [of other_env other_uuid "JString ''Hello, world!''" demo_world]
    by (simp add: other_env_def demo_env_def)
  from distinct_uuids_give_distinct_names [OF h, of "JString ''Hello, world!''" demo_world ?p1
      "JString ''Hello, world!''" demo_world ?p2] u1 u2 s1 s2
  have "fileName_of (uuidv4 demo_env) \<noteq> fileName_of (uuidv4 other_env) \<and> ?p1 \<noteq> ?p2"
    by blast
  with h s1 s2 show ?thesis by simp
qed

text \<open>The route, once the text is valid and the service has written the file.\<close>

lemma post_convert_synthesised:
  assumes "select_field ''text'' b = JString s" and "1 \<le> length s" and "length s \<le> 500"
    and "speech_create e \<lparr>model = ''tts-1-hd'', voice = ''alloy'', input = JString s\<rparr> = Inr (Inr B)"
    and "writeFile e (path_join [dirname e, ''../../../temp'', fileName_of (uuidv4 e)]) B = None"
  shows "post_convert e b w =
     (case res_download e (path_join [dirname e, ''../../../temp'', fileName_of (uuidv4 e)])
             (download_name (path_join [dirname e, ''../../../temp'', fileName_of (uuidv4 e)]))
             ((new_response w)\<lparr>provider_calls := provider_calls w @
                   [\<lparr>model = ''tts-1-hd'', voice = ''alloy'', input = JString s\<rparr>],
                 files := (files w)(path_join [dirname e, ''../../../temp'', fileName_of (uuidv4 e)] \<mapsto> B)\<rparr>) of
        (cb, w2) \<Rightarrow> download_callback cb w2)"
proof -
  obtain req where req: "run_dto b = Inr req" "req_body req = b" "validationResult req = []"
    using run_dto_string [OF assms(1)] assms(2,3) by auto
  have "post_convert e b w = controller_convertTextToSpeech e req (new_response w)"
    using req(1,3) by (rule post_convert_accepted)
  moreover have "destructure_text (req_body req) = Inr (JString s)"
    using assms(1) req(2) by (simp add: destructure_selected)
  ultimately show ?thesis
    using service_success [OF assms(4,5), of "new_response w"]
    by (simp add: controller_convertTextToSpeech_def Let_def new_response_def)
qed

text \<open>
  Claim C4. When the provider returns the bytes \<open>B\<close> for a valid text, the service
  writes exactly \<open>B\<close> to the file \<open><uuid>.mp3\<close> directly under the directory of the
  audio files and returns that path; the controller calls \<open>res.download\<close> with the path
  and the name \<open><uuid>.mp3\<close>, and the client receives a file of that name holding \<open>B\<close>.
\<close>

theorem successful_synthesis_writes_and_downloads:
  assumes "select_field ''text'' b = JString s" and "1 \<le> length s" and "length s \<le> 500"
    and "speech_create e \<lparr>model = ''tts-1-hd'', voice = ''alloy'', input = JString s\<rparr> = Inr (Inr B)"
    and "is_uuid (uuidv4 e)"
    and "writeFile e (path_join [dirname e, ''../../../temp'', uuidv4 e @ ''.mp3'']) B = None"
    and "transfer e = Delivered"
  shows "fst (convertTextToSpeech e (JString s) (new_response w)) =
           Inr (path_join [dirname e, ''../../../temp''] @ ''/'' @ uuidv4 e @ ''.mp3'') \<and>
         files (snd (convertTextToSpeech e (JString s) (new_response w)))
           (path_join [dirname e, ''../../../temp''] @ ''/'' @ uuidv4 e @ ''.mp3'') = Some B \<and>
         fst (post_convert e b w) = None \<and>
         res_calls (snd (post_convert e b w)) =
           [Download (path_join [dirname e, ''../../../temp''] @ ''/'' @ uuidv4 e @ ''.mp3'')
              (uuidv4 e @ ''.mp3'')] \<and>
         responses (snd (post_convert e b w)) =
           [\<lparr>status = 200, resp_body = FileBody (uuidv4 e @ ''.mp3'') B\<rparr>]"
proof -
  let ?p = "path_join [dirname e, ''../../../temp'', fileName_of (uuidv4 e)]"
  have plain: "plain_segment (fileName_of (uuidv4 e))"
    using assms(5) by (rule is_uuid_plain)
  have w: "writeFile e ?p B = None"
    using assms(6) by (simp add: fileName_of_def)
  have p: "?p = path_join [dirname e, ''../../../temp''] @ ''/'' @ uuidv4 e @ ''.mp3''"
    using path_join_under_temp [OF plain, of "dirname e"] by (simp add: fileName_of_def)
  have n: "download_name ?p = uuidv4 e @ ''.mp3''"
    using download_name_path_join [OF plain, of "dirname e"] by (simp add: fileName_of_def)
  have svc: "fst (convertTextToSpeech e (JString s) (new_response w)) = Inr ?p \<and>
             files (snd (convertTextToSpeech e (JString s) (new_response w))) ?p = Some B"
    by (simp add: service_success [OF assms(4) w])
  have route: "fst (post_convert e b w) = None \<and>
         res_calls (snd (post_convert e b w)) = [Download ?p (download_name ?p)] \<and>
         responses (snd (post_convert e b w)) =
           [\<lparr>status = 200, resp_body = FileBody (download_name ?p) B\<rparr>]"
    by (simp add: post_convert_synthesised [OF assms(1,2,3,4) w] res_download_def Let_def
          new_response_def download_callback_def assms(7))
  show ?thesis
    using svc route unfolding n unfolding p by simp
qed

lemma demo_dir:
  "path_join [''/app/src/modules/text-to-speech'', ''../../../temp''] = ''/app/temp''"
  by code_simp

theorem successful_synthesis_writes_and_downloads_witness:
  "fst (convertTextToSpeech demo_env (JString ''Hello, world!'') (new_response demo_world)) =
     Inr ''/app/temp/9b1deb4d-3b7d-4bad-9bdd-2b0d7b3dcb6d.mp3'' \<and>
   files (snd (convertTextToSpeech demo_env (JString ''Hello, world!'') (new_response demo_world)))
     ''/app/temp/9b1deb4d-3b7d-4bad-9bdd-2b0d7b3dcb6d.mp3'' = Some demo_audio \<and>
   fst (post_convert demo_env hello_body demo_world) = None \<and>
   res_calls (snd (post_convert demo_env hello_body demo_world)) =
     [Download ''/app/temp/9b1deb4d-3b7d-4bad-9bdd-2b0d7b3dcb6d.mp3''
        ''9b1deb4d-3b7d-4bad-9bdd-2b0d7b3dcb6d.mp3''] \<and>
   responses (snd (post_convert demo_env hello_body demo_world)) =
     [\<lparr>status = 200, resp_body = FileBody ''9b1deb4d-3b7d-4bad-9bdd-2b0d7b3dcb6d.mp3'' demo_audio\<rparr>]"
proof -
  have h2: "1 \<le> length ''Hello, world!''" and h3: "length ''Hello, world!'' \<le> 500"
    by simp_all
  have h4: "speech_create demo_env \<lparr>model = ''tts-1-hd'', voice = ''alloy'', input = JString ''Hello, world!''\<rparr> =
      Inr (Inr demo_audio)"
    by (simp add: demo_env_def)
  have h5: "is_uuid (uuidv4 demo_env)"
    by (simp add: demo_env_def is_uuid_demo)
  have h6: "writeFile demo_env (path_join [dirname demo_env, ''../../../temp'', uuidv4 demo_env @ ''.mp3'']) demo_audio = None"
    by (simp add: demo_env_def)
  have h7: "transfer demo_env = Delivered"
    by (simp add: demo_env_def)
  have d: "dirname demo_env = ''/app/src/modules/text-to-speech''"
    and u: "uuidv4 demo_env = ''9b1deb4d-3b7d-4bad-9bdd-2b0d7b3dcb6d''"
    by (simp_all add: demo_env_def demo_uuid_def)
  show ?thesis
    using successful_synthesis_writes_and_downloads [OF select_hello h2 h3 h4 h5 h6 h7, of demo_world]
    unfolding d u demo_dir by simp
qed

section \<open>The errors of a rejected request\<close>







section \<open>Failed transfers and the responses of a request\<close>

lemma demo_name:
  "download_name ''/app/temp/9b1deb4d-3b7d-4bad-9bdd-2b0d7b3dcb6d.mp3'' =
     ''9b1deb4d-3b7d-4bad-9bdd-2b0d7b3dcb6d.mp3''"
  by code_simp

lemma post_convert_demo:
  assumes "speech_create e = (\<lambda>p. Inr (Inr demo_audio))" and "uuidv4 e = demo_uuid"
    and "dirname e = ''/app/src/modules/text-to-speech''" and "writeFile e = (\<lambda>p b. None)"
  shows "post_convert e hello_body demo_world =
     (case res_download e ''/app/temp/9b1deb4d-3b7d-4bad-9bdd-2b0d7b3dcb6d.mp3''
             ''9b1deb4d-3b7d-4bad-9bdd-2b0d7b3dcb6d.mp3''
             ((new_response demo_world)\<lparr>provider_calls :=
                   [\<lparr>model = ''tts-1-hd'', voice = ''alloy'', input = JString ''Hello, world!''\<rparr>],
                 files := (files demo_world)(''/app/temp/9b1deb4d-3b7d-4bad-9bdd-2b0d7b3dcb6d.mp3'' \<mapsto> demo_audio)\<rparr>) of
        (cb, w2) \<Rightarrow> download_callback cb w2)"
proof -
  have h2: "1 \<le> length ''Hello, world!''" and h3: "length ''Hello, world!'' \<le> 500"
    by simp_all
  have h4: "speech_create e \<lparr>model = ''tts-1-hd'', voice = ''alloy'', input = JString ''Hello, world!''\<rparr> =
      Inr (Inr demo_audio)"
    by (simp add: assms(1))
  have h5: "writeFile e (path_join [dirname e, ''../../../temp'', fileName_of (uuidv4 e)]) demo_audio = None"
    by (simp add: assms(4))
  show ?thesis
    using post_convert_synthesised [OF select_hello h2 h3 h4 h5, of demo_world]
    by (simp add: assms(2,3) demo_path demo_name demo_world_def)
qed

text \<open>
  Claim C6, as stated, fails: when the file cannot be sent, the body of the 500 response is
  the text \<open>Error generating the audio file\<close>, not the JSON body that a failed synthesis
  gets.
\<close>

theorem send_failure_body_counterexample:
  "transfer unreadable_env = ReadFailed (FsError ''EACCES'') \<and>
   responses (snd (post_convert unreadable_env hello_body demo_world)) =
     [\<lparr>status = 500, resp_body = TextBody ''Error generating the audio file''\<rparr>] \<and>
   responses (snd (post_convert unreadable_env hello_body demo_world)) \<noteq>
     [\<lparr>status = 500,
       resp_body = JsonBody (JObject [(''error'', JString ''Error converting text to audio'')])\<rparr>]"
proof -
  have "post_convert unreadable_env hello_body demo_world =
     (case res_download unreadable_env ''/app/temp/9b1deb4d-3b7d-4bad-9bdd-2b0d7b3dcb6d.mp3''
             ''9b1deb4d-3b7d-4bad-9bdd-2b0d7b3dcb6d.mp3''
             ((new_response demo_world)\<lparr>provider_calls :=
                   [\<lparr>model = ''tts-1-hd'', voice = ''alloy'', input = JString ''Hello, world!''\<rparr>],
                 files := (files demo_world)(''/app/temp/9b1deb4d-3b7d-4bad-9bdd-2b0d7b3dcb6d.mp3'' \<mapsto> demo_audio)\<rparr>) of
        (cb, w2) \<Rightarrow> download_callback cb w2)"
    by (rule post_convert_demo) (simp_all add: unreadable_env_def demo_env_def)
  moreover have "transfer unreadable_env = ReadFailed (FsError ''EACCES'')"
    by (simp add: unreadable_env_def)
  ultimately show ?thesis
    by (simp add: res_download_def Let_def new_response_def download_callback_def res_send_def
          res_status_def)
qed

text \<open>
  Claim C6, amended. When the file written cannot be read for sending, a failure reported
  before the head of the response is written and with the client still there, the
  controller answers 500 with the text \<open>Error generating the audio file\<close>, and nothing is
  thrown.
\<close>

theorem send_failure_gives_500_text:
  assumes "select_field ''text'' b = JString s" and "1 \<le> length s" and "length s \<le> 500"
    and "speech_create e \<lparr>model = ''tts-1-hd'', voice = ''alloy'', input = JString s\<rparr> = Inr (Inr B)"
    and "writeFile e (path_join [dirname e, ''../../../temp'', uuidv4 e @ ''.mp3'']) B = None"
    and "transfer e = ReadFailed err"
  shows "fst (post_convert e b w) = None \<and>
         res_calls (snd (post_convert e b w)) =
           [Download (path_join [dirname e, ''../../../temp'', uuidv4 e @ ''.mp3''])
              (download_name (path_join [dirname e, ''../../../temp'', uuidv4 e @ ''.mp3''])),
            Status 500, Send ''Error generating the audio file''] \<and>
         responses (snd (post_convert e b w)) =
           [\<lparr>status = 500, resp_body = TextBody ''Error generating the audio file''\<rparr>]"
proof -
  have w: "writeFile e (path_join [dirname e, ''../../../temp'', fileName_of (uuidv4 e)]) B = None"
    using assms(5) by (simp add: fileName_of_def)
  show ?thesis
    by (simp add: post_convert_synthesised [OF assms(1,2,3,4) w] res_download_def Let_def
          new_response_def download_callback_def res_send_def res_status_def fileName_of_def
          assms(6))
qed

theorem send_failure_gives_500_text_witness:
  "transfer unreadable_env = ReadFailed (FsError ''EACCES'') \<and>
   fst (post_convert unreadable_env hello_body demo_world) = None \<and>
   res_calls (snd (post_convert unreadable_env hello_body demo_world)) =
     [Download ''/app/temp/9b1deb4d-3b7d-4bad-9bdd-2b0d7b3dcb6d.mp3''
        ''9b1deb4d-3b7d-4bad-9bdd-2b0d7b3dcb6d.mp3'',
      Status 500, Send ''Error generating the audio file''] \<and>
   responses (snd (post_convert unreadable_env hello_body demo_world)) =
     [\<lparr>status = 500, resp_body = TextBody ''Error generating the audio file''\<rparr>]"
proof -
  have h2: "1 \<le> length ''Hello, world!''" and h3: "length ''Hello, world!'' \<le> 500"
    by simp_all
  have h4: "speech_create unreadable_env \<lparr>model = ''tts-1-hd'', voice = ''alloy'', input = JString ''Hello, world!''\<rparr> =
      Inr (Inr demo_audio)"
    by (simp add: unreadable_env_def demo_env_def)
  have h5: "writeFile unreadable_env (path_join [dirname unreadable_env, ''../../../temp'', uuidv4 unreadable_env @ ''.mp3'']) demo_audio = None"
    by (simp add: unreadable_env_def demo_env_def)
  have h6: "transfer unreadable_env = ReadFailed (FsError ''EACCES'')"
    by (simp add: unreadable_env_def)
  have d: "dirname unreadable_env = ''/app/src/modules/text-to-speech''"
    and u: "uuidv4 unreadable_env = demo_uuid"
    by (simp_all add: unreadable_env_def demo_env_def)
  have p: "path_join [''/app/src/modules/text-to-speech'', ''../../../temp'', demo_uuid @ ''.mp3''] =
      ''/app/temp/9b1deb4d-3b7d-4bad-9bdd-2b0d7b3dcb6d.mp3''"
    using demo_path by (simp add: fileName_of_def)
  show ?thesis
    using h6 send_failure_gives_500_text [OF select_hello h2 h3 h4 h5 h6, of demo_world]
    unfolding d u p demo_name by simp
qed





end
